theory Spec2Isabelle
  imports Main "HOL-Library.Sublist" "HOL-Library.Product_Lexorder"
begin

section \<open>Python values and string operations used by gsout.py\<close>

text \<open>
  A Python \<^verbatim>\<open>str\<close> is modelled as a \<^typ>\<open>string\<close>; every \<^typ>\<open>char\<close> stands for
  one code point below 256.  Exceptions are values: a computation that may raise returns
  \<open>exn + 'a\<close>, with \<open>Inl\<close> for the exception.
\<close>

datatype exn =
    KeyError string
  | TypeError string
  | ValueError string
  | ArgumentTypeError string
  | OtherException string

text \<open>
  What \<^verbatim>\<open>json.loads\<close> can return, and hence what the variable \<^verbatim>\<open>link\<close> of
  \<^verbatim>\<open>list_submissions\<close> can hold.  A float is kept as its literal: no operation of
  the program reads its value.  A dict is the list of its items.
\<close>

datatype pyval =
    PNone
  | PBool bool
  | PInt int
  | PFloat string
  | PStr string
  | PList "pyval list"
  | PDict "(string \<times> pyval) list"

text \<open>\<^verbatim>\<open>str.isspace\<close> for one code point below 256.\<close>

definition is_space :: "char \<Rightarrow> bool" where
  "is_space c =
     (let n = of_char c :: nat
      in (9 \<le> n \<and> n \<le> 13) \<or> (28 \<le> n \<and> n \<le> 32) \<or> n = 133 \<or> n = 160)"

text \<open>
  \<^verbatim>\<open>s.split()\<close>: the maximal runs of non-whitespace characters, in order.  The second
  argument is the run being read.
\<close>

fun split_ws_from :: "string \<Rightarrow> string \<Rightarrow> string list" where
  "split_ws_from cur [] = (if cur = [] then [] else [cur])"
| "split_ws_from cur (c # cs) =
     (if is_space c
      then (if cur = [] then split_ws_from [] cs else cur # split_ws_from [] cs)
      else split_ws_from (cur @ [c]) cs)"

definition split_ws :: "string \<Rightarrow> string list" where
  "split_ws s = split_ws_from [] s"

text \<open>
  \<^verbatim>\<open>s.split(sep)\<close> for a non-empty separator: the pieces between the occurrences of
  \<open>sep\<close>, found from left to right without overlap.  (Python raises on an empty
  separator; the program never passes one, and the model then returns the text whole.)
\<close>

fun split_from :: "string \<Rightarrow> string \<Rightarrow> string \<Rightarrow> string list" where
  "split_from sep cur [] = [cur]"
| "split_from sep cur (c # cs) =
     (if sep \<noteq> [] \<and> prefix sep (c # cs)
      then cur # split_from sep [] (drop (length sep - 1) cs)
      else split_from sep (cur @ [c]) cs)"

definition str_split :: "string \<Rightarrow> string \<Rightarrow> string list" where
  "str_split s sep = split_from sep [] s"

text \<open>\<^verbatim>\<open>sub in s\<close> on strings.\<close>

fun str_contains :: "string \<Rightarrow> string \<Rightarrow> bool" where
  "str_contains sub [] = (sub = [])"
| "str_contains sub (c # cs) = (prefix sub (c # cs) \<or> str_contains sub cs)"

text \<open>\<^verbatim>\<open>s.find(sub)\<close>: the index of the first occurrence, \<open>None\<close> for Python's -1.\<close>

fun str_find :: "string \<Rightarrow> string \<Rightarrow> nat option" where
  "str_find [] sub = (if sub = [] then Some 0 else None)"
| "str_find (c # cs) sub =
     (if prefix sub (c # cs) then Some 0 else map_option Suc (str_find cs sub))"

definition endswith :: "string \<Rightarrow> string \<Rightarrow> bool" where
  "endswith s suf = suffix suf s"

definition removesuffix :: "string \<Rightarrow> string \<Rightarrow> string" where
  "removesuffix s suf =
     (if suf \<noteq> [] \<and> endswith s suf then take (length s - length suf) s else s)"

text \<open>\<^verbatim>\<open>str(n)\<close> for a non-negative integer.\<close>

definition digit_char :: "nat \<Rightarrow> char" where
  "digit_char d = char_of (48 + d)"

fun str_nat :: "nat \<Rightarrow> string" where
  "str_nat n = (if n < 10 then [digit_char n] else str_nat (n div 10) @ [digit_char (n mod 10)])"

declare str_nat.simps [simp del]

text \<open>
  \<^verbatim>\<open>int(s)\<close> in base 10: surrounding whitespace is dropped, one sign is allowed, then
  decimal digits with single underscores between them.  A literal of more than
  \<open>int_max_str_digits\<close> digits is refused (the interpreter's default limit).
\<close>

definition is_digit :: "char \<Rightarrow> bool" where
  "is_digit c = (let n = of_char c :: nat in 48 \<le> n \<and> n \<le> 57)"

definition digit_value :: "char \<Rightarrow> int" where
  "digit_value c = int (of_char c) - 48"

definition int_max_str_digits :: nat where
  "int_max_str_digits = 4300"

definition strip :: "string \<Rightarrow> string" where
  "strip s = rev (dropWhile is_space (rev (dropWhile is_space s)))"

fun no_double_underscore :: "string \<Rightarrow> bool" where
  "no_double_underscore (a # b # cs) =
     (\<not> (a = CHR ''_'' \<and> b = CHR ''_'') \<and> no_double_underscore (b # cs))"
| "no_double_underscore _ = True"

definition valid_digits :: "string \<Rightarrow> bool" where
  "valid_digits body =
     (body \<noteq> [] \<and> list_all (\<lambda>c. is_digit c \<or> c = CHR ''_'') body \<and>
      is_digit (hd body) \<and> is_digit (last body) \<and> no_double_underscore body \<and>
      length (filter is_digit body) \<le> int_max_str_digits)"

definition digits_value :: "string \<Rightarrow> int" where
  "digits_value body = foldl (\<lambda>a c. 10 * a + digit_value c) 0 (filter is_digit body)"

definition py_int :: "string \<Rightarrow> exn + int" where
  "py_int s =
     (case strip s of
        [] \<Rightarrow> Inl (ValueError s)
      | c # cs \<Rightarrow>
          (let body = (if c = CHR ''-'' \<or> c = CHR ''+'' then cs else c # cs)
           in if valid_digits body
              then Inr (if c = CHR ''-'' then - digits_value body else digits_value body)
              else Inl (ValueError s)))"

text \<open>\<^verbatim>\<open>d[key]\<close> for a string key: only a dict with that key answers.\<close>

fun subscript :: "pyval \<Rightarrow> string \<Rightarrow> exn + pyval" where
  "subscript (PDict items) key =
     (case map_of items key of Some v \<Rightarrow> Inr v | None \<Rightarrow> Inl (KeyError key))"
| "subscript _ key = Inl (TypeError key)"

text \<open>\<^verbatim>\<open>sub in v\<close> for a string \<open>sub\<close>: substring of a str, element of a list, key of a dict.\<close>

fun py_in :: "string \<Rightarrow> pyval \<Rightarrow> exn + bool" where
  "py_in sub (PStr s) = Inr (str_contains sub s)"
| "py_in sub (PList xs) = Inr (PStr sub \<in> set xs)"
| "py_in sub (PDict items) = Inr (sub \<in> fst ` set items)"
| "py_in sub _ = Inl (TypeError sub)"

section \<open>The command line: \<^verbatim>\<open>zip_file_argument\<close>\<close>

definition zip_file_argument :: "string \<Rightarrow> exn + string" where
  "zip_file_argument arg =
     (if endswith arg ''.zip'' then Inr (removesuffix arg ''.zip'')
      else Inl (ArgumentTypeError ''ZIP file path must have the .zip extension''))"

text \<open>
  \<^verbatim>\<open>shutil.make_archive(base_name, 'zip', root_dir)\<close> writes the archive at
  \<^verbatim>\<open>base_name + ".zip"\<close> and returns that path.
\<close>

definition make_archive_path :: "string \<Rightarrow> string" where
  "make_archive_path base_name = base_name @ ''.zip''"

section \<open>Courses and the term sorter\<close>

record InspectedAssignmentFromCourse =
  a_slug :: string
  a_name :: string
  a_grade :: string
  a_submission :: string

record InspectedCourse =
  c_slug :: string
  short_name :: string
  long_name :: string
  c_term :: string
  instructors :: "string list"
  assignments :: "InspectedAssignmentFromCourse list"

text \<open>
  A Python dict keeps its keys in insertion order; assigning to a key that is present
  keeps its place.  The dict \<^verbatim>\<open>by_term\<close> is the list of its items.
\<close>

fun dict_set :: "'k \<Rightarrow> 'v \<Rightarrow> ('k \<times> 'v) list \<Rightarrow> ('k \<times> 'v) list" where
  "dict_set k v [] = [(k, v)]"
| "dict_set k v (p # ps) = (if fst p = k then (k, v) # ps else p # dict_set k v ps)"

definition dict_get :: "('k \<times> 'v) list \<Rightarrow> 'k \<Rightarrow> 'v \<Rightarrow> 'v" where
  "dict_get d k dflt = (case map_of d k of Some v \<Rightarrow> v | None \<Rightarrow> dflt)"

definition SEASON_ORDER :: "(string \<times> int) list" where
  "SEASON_ORDER = [(''Spring'', 0), (''Summer'', 1), (''Fall'', 2)]"

text \<open>The body of the \<^verbatim>\<open>try\<close> in \<^verbatim>\<open>term_chrono_index\<close>.\<close>

definition term_parse :: "string \<Rightarrow> exn + (int \<times> int)" where
  "term_parse term_str =
     (case split_ws term_str of
        [season, year] \<Rightarrow>
          (case py_int year of
             Inl e \<Rightarrow> Inl e
           | Inr y \<Rightarrow>
               (case map_of SEASON_ORDER season of
                  None \<Rightarrow> Inl (KeyError season)
                | Some r \<Rightarrow> Inr (y, r)))
      | _ \<Rightarrow> Inl (ValueError term_str))"

definition term_chrono_index :: "string \<Rightarrow> int \<times> int" where
  "term_chrono_index term_str =
     (case term_parse term_str of Inr k \<Rightarrow> k | Inl e \<Rightarrow> (0, 0))"

definition by_term_of :: "InspectedCourse list \<Rightarrow> (string \<times> InspectedCourse list) list" where
  "by_term_of courses =
     foldl (\<lambda>by_term course.
              dict_set (c_term course) (dict_get by_term (c_term course) [] @ [course]) by_term)
       [] courses"

text \<open>
  \<^verbatim>\<open>sorted\<close> is stable; so is \<^const>\<open>sort_key\<close>, and a stable sort has one result.
\<close>

definition sort_courses :: "InspectedCourse list \<Rightarrow> (string \<times> InspectedCourse list) list" where
  "sort_courses courses =
     sort_key (\<lambda>item. term_chrono_index (fst item)) (by_term_of courses)"

text \<open>The warnings \<^verbatim>\<open>term_chrono_index\<close> prints, one for each term it cannot parse.\<close>

definition sort_warnings :: "InspectedCourse list \<Rightarrow> exn list" where
  "sort_warnings courses =
     concat (map (\<lambda>item. case term_parse (fst item) of Inl e \<Rightarrow> [e] | Inr k \<Rightarrow> [])
               (by_term_of courses))"

section \<open>The world outside the program\<close>

text \<open>
  What \<^verbatim>\<open>session.get\<close> returns: the status code, the decoded body
  (\<^verbatim>\<open>response.text\<close>), and what streaming the body gives: the chunks that
  \<^verbatim>\<open>iter_content\<close> yields and are written to the file and, if the loop is cut
  short, the exception that ends it.
\<close>

record response =
  status_code :: int
  resp_text :: string
  chunks :: "string list"
  stream_error :: "exn option"

text \<open>
  The environment answers every request of the download phase; requests are numbered in
  the order the program makes them, so that the same URL may be answered differently
  each time.  \<open>session_get n u\<close> is the outcome of the \<open>n\<close>-th GET, made for \<open>u\<close>;
  \<open>open_wb n p\<close> is the outcome of opening \<open>p\<close> for writing after that GET
  (\<open>Some e\<close>: the exception raised); \<open>json_loads\<close> is \<^verbatim>\<open>json.loads\<close>.
\<close>

record env =
  session_get :: "nat \<Rightarrow> pyval \<Rightarrow> exn + response"
  open_wb :: "nat \<Rightarrow> string \<Rightarrow> exn option"
  json_loads :: "string \<Rightarrow> exn + pyval"

text \<open>
  Standard output is a list of lines, each kept with the values its f-string prints:
  \<^item> \<open>CourseProgress (i + 1) (len course_slugs) (len assignments) (len instructors) short_name\<close>;
  \<^item> \<open>Warning e\<close>: the warning of \<^verbatim>\<open>term_chrono_index\<close>;
  \<^item> \<open>AssignmentProgress i_assignment n_assignments short_name name grade\<close>;
  \<^item> \<open>SubmissionProgress (i + 1) (len submissions) slug\<close>;
  \<^item> \<open>FilesDownloaded (len files)\<close>;
  \<^item> \<open>PrintExn e\<close>: \<^verbatim>\<open>print(e)\<close> in an exception handler.
\<close>

datatype out_line =
    Banner
  | InspectingCourses
  | CourseProgress nat nat nat nat string
  | DownloadingSubmissions
  | Warning exn
  | AssignmentProgress nat nat string string string
  | SubmissionProgress nat nat string
  | FilesDownloaded nat
  | PrintExn exn

text \<open>
  The state the program changes: the number of the next request, the files on disk
  (path to content), standard output, what has been written to the README, and the
  counter \<^verbatim>\<open>i_assignment\<close> of \<^verbatim>\<open>main\<close>.
\<close>

datatype readme_chunk =
    Header string
  | TermHeading string
  | CourseHeading InspectedCourse
  | AssignmentLine string string
  | SubmissionNoFiles string
  | SubmissionHead string
  | FileLink string nat string
  | Newline

record state =
  req :: nat
  fs :: "string \<rightharpoonup> string"
  stdout :: "out_line list"
  readme :: "readme_chunk list"
  i_assignment :: nat

definition print :: "out_line \<Rightarrow> state \<Rightarrow> state" where
  "print l st = st\<lparr>stdout := stdout st @ [l]\<rparr>"

definition readme_write :: "readme_chunk \<Rightarrow> state \<Rightarrow> state" where
  "readme_write c st = st\<lparr>readme := readme st @ [c]\<rparr>"

definition BASE_URL :: string where
  "BASE_URL = ''https://www.gradescope.com''"

section \<open>The submission locator: \<^verbatim>\<open>list_submissions\<close>\<close>

record SubmissionFile =
  url :: pyval
  ext :: string

record InspectedSubmission =
  s_slug :: string
  files :: "SubmissionFile list"

definition submission_url :: "InspectedCourse \<Rightarrow> InspectedAssignmentFromCourse \<Rightarrow> string" where
  "submission_url course assignment =
     BASE_URL @ ''/courses/'' @ c_slug course @ ''/assignments/'' @ a_slug assignment
       @ ''/submissions/'' @ a_submission assignment"

definition guess_files :: "InspectedCourse \<Rightarrow> InspectedAssignmentFromCourse \<Rightarrow> SubmissionFile list" where
  "guess_files course assignment =
     map (\<lambda>e. \<lparr>url = PStr (submission_url course assignment @ ''.'' @ e), ext = e\<rparr>)
       [''pdf'', ''zip'']"

definition UPLOADS :: string where
  "UPLOADS = ''https://production-gradescope-uploads''"

text \<open>The \<^verbatim>\<open>except\<close> branch of the inner \<^verbatim>\<open>try\<close> (line 148).\<close>

definition fallback_link :: "string \<Rightarrow> string" where
  "fallback_link t = hd (str_split (UPLOADS @ concat (tl (str_split t UPLOADS))) ''&quot'')"

text \<open>The inner \<^verbatim>\<open>try\<close>: any exception of its body leads to the fallback.\<close>

definition json_link :: "env \<Rightarrow> string \<Rightarrow> exn + pyval" where
  "json_link E t =
     (case json_loads E t of
        Inl e \<Rightarrow> Inl e
      | Inr data \<Rightarrow>
          (case subscript data ''pdf_attachment'' of
             Inl e \<Rightarrow> Inl e
           | Inr a \<Rightarrow> subscript a ''url''))"

definition locate_link :: "env \<Rightarrow> string \<Rightarrow> pyval" where
  "locate_link E t =
     (case json_link E t of Inr link \<Rightarrow> link | Inl e \<Rightarrow> PStr (fallback_link t))"

text \<open>The body of the outer \<^verbatim>\<open>try\<close>: the files it appends, or the exception it raises.\<close>

definition extra_files ::
  "env \<Rightarrow> nat \<Rightarrow> InspectedCourse \<Rightarrow> InspectedAssignmentFromCourse \<Rightarrow> exn + SubmissionFile list" where
  "extra_files E n course assignment =
     (case session_get E n (PStr (submission_url course assignment)) of
        Inl e \<Rightarrow> Inl e
      | Inr response \<Rightarrow>
          (let link = locate_link E (resp_text response)
           in case py_in ''pdf'' link of
                Inl e \<Rightarrow> Inl e
              | Inr b \<Rightarrow> Inr (if b then [\<lparr>url = link, ext = ''pdf''\<rparr>] else [])))"

definition list_submissions ::
  "env \<Rightarrow> InspectedCourse \<Rightarrow> InspectedAssignmentFromCourse \<Rightarrow> state
     \<Rightarrow> InspectedSubmission list \<times> state" where
  "list_submissions E course assignment st =
     (let fls = guess_files course assignment;
          st1 = st\<lparr>req := req st + 1\<rparr>
      in case extra_files E (req st) course assignment of
           Inl e \<Rightarrow> ([\<lparr>s_slug = a_submission assignment, files = fls\<rparr>], print (PrintExn e) st1)
         | Inr extra \<Rightarrow> ([\<lparr>s_slug = a_submission assignment, files = fls @ extra\<rparr>], st1))"

section \<open>The downloader: \<^verbatim>\<open>download\<close>\<close>

record DownloadedFile =
  index :: nat
  path :: string
  d_ext :: string

text \<open>\<^verbatim>\<open>os.path.join(a, b)\<close> on a POSIX system.\<close>

definition os_path_join :: "string \<Rightarrow> string \<Rightarrow> string" where
  "os_path_join a b =
     (if prefix ''/'' b then b
      else if a = [] \<or> suffix ''/'' a then a @ b
      else a @ ''/'' @ b)"

definition filename_of :: "string \<Rightarrow> string \<Rightarrow> string \<Rightarrow> nat \<Rightarrow> string \<Rightarrow> string" where
  "filename_of course assignment slug idx e =
     course @ ''-'' @ assignment @ ''-'' @ slug @ ''-'' @ str_nat (idx + 1) @ ''.'' @ e"

text \<open>
  One turn of the loop of \<^verbatim>\<open>download\<close>, for the candidate \<open>link\<close> at position
  \<open>idx\<close>.  Every turn makes exactly one GET.
\<close>

definition download_one ::
  "env \<Rightarrow> string \<Rightarrow> string \<Rightarrow> string \<Rightarrow> string
     \<Rightarrow> DownloadedFile list \<times> state \<Rightarrow> nat \<times> SubmissionFile \<Rightarrow> DownloadedFile list \<times> state" where
  "download_one E out_dir course assignment slug acc il =
     (let filenames = fst acc; st = snd acc; idx = fst il; link = snd il;
          filename = filename_of course assignment slug idx (ext link);
          st1 = st\<lparr>req := req st + 1\<rparr>
      in case session_get E (req st) (url link) of
           Inl e \<Rightarrow> (filenames, print (PrintExn e) st1)
         | Inr response \<Rightarrow>
             if status_code response \<noteq> 200 then (filenames, st1)
             else
               (case open_wb E (req st) (os_path_join out_dir filename) of
                  Some e \<Rightarrow> (filenames, print (PrintExn e) st1)
                | None \<Rightarrow>
                    (let st2 = st1\<lparr>fs := (fs st1)(os_path_join out_dir filename \<mapsto>
                                                   concat (chunks response))\<rparr>
                     in case stream_error response of
                          Some e \<Rightarrow> (filenames, print (PrintExn e) st2)
                        | None \<Rightarrow>
                            (filenames @ [\<lparr>index = idx + 1, path = filename, d_ext = ext link\<rparr>],
                             st2))))"

definition download ::
  "env \<Rightarrow> string \<Rightarrow> string \<Rightarrow> string \<Rightarrow> InspectedSubmission \<Rightarrow> state
     \<Rightarrow> DownloadedFile list \<times> state" where
  "download E out_dir course assignment submission st =
     foldl (download_one E out_dir course assignment (s_slug submission)) ([], st)
       (List.enumerate 0 (files submission))"

section \<open>The orchestrator: \<^verbatim>\<open>main\<close>\<close>

text \<open>
  \<^verbatim>\<open>list_courses\<close>, from the \<^verbatim>\<open>href\<close> attributes of the course boxes of the
  dashboard.  The result is a Python set; the order in which the set is iterated is not
  specified, and the order of first occurrence stands for it here.
\<close>

definition list_courses :: "string list \<Rightarrow> string list" where
  "list_courses hrefs = remdups (map (\<lambda>href. strip (last (str_split href ''/''))) hrefs)"

text \<open>
  \<^verbatim>\<open>inspect_course\<close>: \<open>page slug\<close> is what the course page of \<open>slug\<close> yields once
  parsed (an exception when an expected element is missing); the course keeps the slug
  it was asked for.
\<close>

definition inspect_course :: "(string \<Rightarrow> exn + InspectedCourse) \<Rightarrow> string \<Rightarrow> exn + InspectedCourse" where
  "inspect_course page slug =
     (case page slug of Inl e \<Rightarrow> Inl e | Inr course \<Rightarrow> Inr (course\<lparr>c_slug := slug\<rparr>))"

fun inspect_loop ::
  "(string \<Rightarrow> exn + InspectedCourse) \<Rightarrow> nat \<Rightarrow> nat \<Rightarrow> string list
     \<Rightarrow> InspectedCourse list \<Rightarrow> state \<Rightarrow> exn + InspectedCourse list \<times> state" where
  "inspect_loop page n i [] courses st = Inr (courses, st)"
| "inspect_loop page n i (slug # slugs) courses st =
     (case inspect_course page slug of
        Inl e \<Rightarrow> Inl e
      | Inr course \<Rightarrow>
          inspect_loop page n (i + 1) slugs (courses @ [course])
            (print (CourseProgress (i + 1) n (length (assignments course))
                      (length (instructors course)) (short_name course)) st))"

text \<open>The body of the loop over the submissions of one assignment (lines 259 to 274).\<close>

definition process_submission ::
  "env \<Rightarrow> string \<Rightarrow> InspectedCourse \<Rightarrow> InspectedAssignmentFromCourse \<Rightarrow> nat
     \<Rightarrow> state \<Rightarrow> nat \<times> InspectedSubmission \<Rightarrow> state" where
  "process_submission E tmpdir course assignment n_submissions st isub =
     (let i = fst isub; submission = snd isub;
          st1 = print (SubmissionProgress (i + 1) n_submissions (s_slug submission)) st;
          dl = download E tmpdir (c_slug course) (a_slug assignment) submission st1;
          fls = fst dl;
          st2 = print (FilesDownloaded (length fls)) (snd dl);
          st3 = (if length fls = 0 then readme_write (SubmissionNoFiles (s_slug submission)) st2
                 else readme_write (SubmissionHead (s_slug submission)) st2);
          st4 = foldl (\<lambda>s file. readme_write (FileLink (d_ext file) (index file) (path file)) s)
                  st3 fls;
          st5 = readme_write Newline st4
      in st5\<lparr>i_assignment := i_assignment st5 + 1\<rparr>)"

text \<open>The body of the loop over the assignments of one course (lines 253 to 274).\<close>

definition process_assignment ::
  "env \<Rightarrow> string \<Rightarrow> nat \<Rightarrow> InspectedCourse \<Rightarrow> state \<Rightarrow> InspectedAssignmentFromCourse \<Rightarrow> state" where
  "process_assignment E tmpdir n_assignments course st assignment =
     (let st1 = print (AssignmentProgress (i_assignment st) n_assignments (short_name course)
                         (a_name assignment) (a_grade assignment)) st;
          st2 = readme_write (AssignmentLine (a_name assignment) (a_grade assignment)) st1;
          ls = list_submissions E course assignment st2;
          submissions = fst ls
      in foldl (process_submission E tmpdir course assignment (length submissions)) (snd ls)
           (List.enumerate 0 submissions))"

definition process_course :: "env \<Rightarrow> string \<Rightarrow> nat \<Rightarrow> state \<Rightarrow> InspectedCourse \<Rightarrow> state" where
  "process_course E tmpdir n_assignments st course =
     foldl (process_assignment E tmpdir n_assignments course)
       (readme_write (CourseHeading course) st) (assignments course)"

definition process_term ::
  "env \<Rightarrow> string \<Rightarrow> nat \<Rightarrow> state \<Rightarrow> string \<times> InspectedCourse list \<Rightarrow> state" where
  "process_term E tmpdir n_assignments st item =
     foldl (process_course E tmpdir n_assignments) (readme_write (TermHeading (fst item)) st)
       (snd item)"

text \<open>The text of the README, chunk by chunk as the f-strings write it.\<close>

definition nl :: string where
  "nl = [CHR 0x0A]"

fun str_join :: "string \<Rightarrow> string list \<Rightarrow> string" where
  "str_join sep [] = []"
| "str_join sep [x] = x"
| "str_join sep (x # y # ys) = x @ sep @ str_join sep (y # ys)"

fun render :: "readme_chunk \<Rightarrow> string" where
  "render (Header h) = h"
| "render (TermHeading t) = ''## '' @ t @ nl @ nl"
| "render (CourseHeading course) =
     ''### ['' @ short_name course @ '']('' @ BASE_URL @ ''/courses/'' @ c_slug course @ ''): ''
       @ long_name course @ nl @ nl @ ''**Instructors:**'' @ nl @ nl
       @ str_join nl (map (\<lambda>r. ''- '' @ r) (instructors course)) @ nl @ nl
       @ ''**Assignments:**'' @ nl"
| "render (AssignmentLine name grade) = ''- '' @ name @ '' ('' @ grade @ '')'' @ nl"
| "render (SubmissionNoFiles slug) = ''  * Submission: '' @ slug @ '' (no files)'' @ nl"
| "render (SubmissionHead slug) = ''  * Submission: '' @ slug @ '' ''"
| "render (FileLink e i p) = ''['' @ e @ ''-'' @ str_nat i @ '']('' @ p @ '') ''"
| "render Newline = nl"

definition render_readme :: "readme_chunk list \<Rightarrow> string" where
  "render_readme cs = concat (map render cs)"

text \<open>
  \<^verbatim>\<open>shutil.make_archive(args.output, 'zip', tmpdir)\<close> stores every file under
  \<open>tmpdir\<close> under its path relative to \<open>tmpdir\<close>.
\<close>

definition archive_of :: "string \<Rightarrow> (string \<rightharpoonup> string) \<Rightarrow> (string \<rightharpoonup> string)" where
  "archive_of tmpdir files_on_disk =
     (\<lambda>rel. if prefix ''/'' rel then None else files_on_disk (os_path_join tmpdir rel))"

record run =
  final :: state
  archive_path :: string
  archive :: "string \<rightharpoonup> string"

text \<open>
  \<^verbatim>\<open>main\<close>, with the command line's \<^verbatim>\<open>--output\<close> value, the temporary directory
  that was created, the head of the README (version and date) and the dashboard's course
  links.  An exception of the argument parser or of a course page ends the run.
\<close>

definition main ::
  "env \<Rightarrow> (string \<Rightarrow> exn + InspectedCourse) \<Rightarrow> string \<Rightarrow> string \<Rightarrow> string list \<Rightarrow> string
     \<Rightarrow> exn + run" where
  "main E page tmpdir header hrefs output =
     (case zip_file_argument output of
        Inl e \<Rightarrow> Inl e
      | Inr args_output \<Rightarrow>
          (let st0 = \<lparr>req = 0, fs = Map.empty, stdout = [Banner, InspectingCourses],
                      readme = [Header header], i_assignment = 1\<rparr>;
               course_slugs = list_courses hrefs
           in case inspect_loop page (length course_slugs) 0 course_slugs [] st0 of
                Inl e \<Rightarrow> Inl e
              | Inr (courses, st1) \<Rightarrow>
                  (let n_assignments = sum_list (map (\<lambda>course. length (assignments course)) courses);
                       st2 = print DownloadingSubmissions st1;
                       st3 = foldl (\<lambda>s e. print (Warning e) s) st2 (sort_warnings courses);
                       st4 = foldl (process_term E tmpdir n_assignments) st3 (sort_courses courses);
                       st5 = st4\<lparr>fs := (fs st4)(os_path_join tmpdir ''README.md'' \<mapsto>
                                                  render_readme (readme st4))\<rparr>
                   in Inr \<lparr>final = st5, archive_path = make_archive_path args_output,
                           archive = archive_of tmpdir (fs st5)\<rparr>)))"

section \<open>Scenarios used to exercise the theorems\<close>

text \<open>An environment in which every request fails and no response is ever parsed.\<close>

definition env_offline :: env where
  "env_offline =
     \<lparr>session_get = (\<lambda>n u. Inl (OtherException ''offline'')),
      open_wb = (\<lambda>n p. None),
      json_loads = (\<lambda>t. Inl (ValueError t))\<rparr>"

definition no_page :: "string \<Rightarrow> exn + InspectedCourse" where
  "no_page slug = Inl (OtherException slug)"

text \<open>A course of which only the slug and the term matter.\<close>

definition course_in :: "string \<Rightarrow> string \<Rightarrow> InspectedCourse" where
  "course_in slug term_str =
     \<lparr>c_slug = slug, short_name = slug, long_name = slug, c_term = term_str,
      instructors = [], assignments = []\<rparr>"

section \<open>The output path round-trips\<close>

lemma removesuffix_append: "endswith s suf \<Longrightarrow> removesuffix s suf @ suf = s"
  by (auto simp: removesuffix_def endswith_def suffix_def)

text \<open>
  Claim C8.  The \<^verbatim>\<open>--output\<close> value is accepted exactly when it ends with
  \<^verbatim>\<open>.zip\<close>.  An accepted value is stored without the suffix, and the path of the
  archive that \<^verbatim>\<open>make_archive\<close> writes, which appends \<^verbatim>\<open>.zip\<close> again, is the
  string the user gave: both for the two functions in isolation and for every run of
  \<^verbatim>\<open>main\<close> that produces an archive.  Any other value is refused with an
  \<^verbatim>\<open>ArgumentTypeError\<close>, and \<^verbatim>\<open>main\<close> does not run.
\<close>

theorem zip_output_roundtrip:
  "((\<exists>base. zip_file_argument arg = Inr base) \<longleftrightarrow> endswith arg ''.zip'')
   \<and> (endswith arg ''.zip'' \<longrightarrow>
        zip_file_argument arg = Inr (removesuffix arg ''.zip'')
        \<and> make_archive_path (removesuffix arg ''.zip'') = arg
        \<and> (\<forall>r. main E page tmpdir header hrefs arg = Inr r \<longrightarrow> archive_path r = arg))
   \<and> (\<not> endswith arg ''.zip'' \<longrightarrow>
        (\<exists>msg. zip_file_argument arg = Inl (ArgumentTypeError msg))
        \<and> (\<exists>msg. main E page tmpdir header hrefs arg = Inl (ArgumentTypeError msg)))"
proof -
  have a: "make_archive_path (removesuffix arg ''.zip'') = arg" if "endswith arg ''.zip''"
    using removesuffix_append [OF that] by (simp add: make_archive_path_def)
  have b: "archive_path r = arg"
    if "endswith arg ''.zip''" "main E page tmpdir header hrefs arg = Inr r" for r
    using that a
    by (auto simp: main_def zip_file_argument_def Let_def split: sum.splits prod.splits)
  have c: "\<exists>msg. main E page tmpdir header hrefs arg = Inl (ArgumentTypeError msg)"
    if "\<not> endswith arg ''.zip''"
    using that by (simp add: main_def zip_file_argument_def)
  show ?thesis
    using a b c by (auto simp: zip_file_argument_def)
qed

theorem zip_output_roundtrip_witness:
  "endswith ''out.zip'' ''.zip''
   \<and> zip_file_argument ''out.zip'' = Inr ''out''
   \<and> make_archive_path ''out'' = ''out.zip''
   \<and> (\<exists>r. main env_offline no_page ''/tmp/d'' ''# head'' [] ''out.zip'' = Inr r
         \<and> archive_path r = ''out.zip'')
   \<and> \<not> endswith ''out.tar'' ''.zip''
   \<and> (\<exists>msg. main env_offline no_page ''/tmp/d'' ''# head'' [] ''out.tar''
               = Inl (ArgumentTypeError msg))"
proof -
  have z: "endswith ''out.zip'' ''.zip''" by code_simp
  have t: "\<not> endswith ''out.tar'' ''.zip''" by code_simp
  have r: "removesuffix ''out.zip'' ''.zip'' = ''out''" by code_simp
  have m: "\<exists>r. main env_offline no_page ''/tmp/d'' ''# head'' [] ''out.zip'' = Inr r"
    using z by (simp add: main_def zip_file_argument_def list_courses_def Let_def)
  show ?thesis
    using zip_output_roundtrip [of "''out.zip''" env_offline no_page "''/tmp/d''" "''# head''" "[]"]
      zip_output_roundtrip [of "''out.tar''" env_offline no_page "''/tmp/d''" "''# head''" "[]"]
      z t r m
    by auto
qed

end
